theory Spec2Isabelle
  imports Main "HOL-Library.Char_ord" "HOL-Library.List_Lexorder" "HOL-Library.Sublist"
begin

section \<open>ModelBase (models/src/model_base.cpp)\<close>

text \<open>
  The file implements four member functions of the class \<open>ModelBase\<close>:
  \<open>load\<close>, \<open>prepareModel\<close>, \<open>getInputLayout\<close> and \<open>infer\<close>.  Each of them is
  embedded as a function that takes the state before the call and returns the outcome of the
  call together with the state after it.  An outcome is \<open>Inr v\<close> when the C++ function
  returns \<open>v\<close> and \<open>Inl e\<close> when an exception leaves it; the state is returned in both
  cases, because the assignments made before a C++ exception stay in the object.
\<close>

subsection \<open>Data\<close>

text \<open>
  The failures named by the specification's error taxonomy.  \<open>NullPointerError\<close> stands
  for the dereference of an empty smart pointer, which C++ leaves undefined.
\<close>

datatype error =
    ModelReadError
  | CompilationError
  | UndefinedLayoutError
  | PreprocessError
  | InferenceError
  | PostprocessError
  | NullPointerError

text \<open>
  \<open>ov::Shape\<close> is a vector of sizes.  \<open>ov::Layout\<close> is kept as its text; the
  default-constructed layout, for which \<open>empty()\<close> holds, is the empty text, and
  \<open>to_string\<close> is the text itself.
\<close>

type_synonym Shape = "nat list"
type_synonym Layout = string

text \<open>
  What \<open>getInputLayout\<close> reads of an \<open>ov::Output<ov::Node>\<close>: its shape, the layout
  annotated in the model graph (\<open>ov::layout::get_layout\<close>, empty when there is none) and
  its name.  The three accessors belong to the inference runtime and are taken as total reads.
\<close>

record Output =
  get_shape :: Shape
  get_layout :: Layout
  get_any_name :: string

text \<open>
  \<open>inputsLayouts\<close> is a \<open>std::map\<close> from input name to layout: its entries have
  distinct keys and are kept in ascending key order (byte-wise lexicographic order of
  \<open>std::string\<close>), so \<open>begin()\<close> is the head of the list.
\<close>

type_synonym LayoutMap = "(string \<times> Layout) list"

text \<open>The ordered insertion of a fresh key.\<close>

fun emplace :: "string \<Rightarrow> Layout \<Rightarrow> LayoutMap \<Rightarrow> LayoutMap" where
  "emplace k v [] = [(k, v)]"
| "emplace k v ((a, b) # ps) =
     (if k < a then (k, v) # (a, b) # ps else (a, b) # emplace k v ps)"

text \<open>
  \<open>std::map::operator[]\<close>: the value stored under the key when there is one; otherwise a
  default-constructed value is inserted under the key and returned.  It never throws.
\<close>

definition subscript :: "LayoutMap \<Rightarrow> string \<Rightarrow> Layout \<times> LayoutMap" where
  "subscript m k =
     (case map_of m k of
        Some v \<Rightarrow> (v, m)
      | None \<Rightarrow> ([], emplace k [] m))"

text \<open>The class invariant of \<open>std::map\<close>.\<close>

definition map_inv :: "LayoutMap \<Rightarrow> bool" where
  "map_inv m = (sorted (map fst m) \<and> distinct (map fst m))"

text \<open>
  \<open>ov::Model\<close>, as far as this file is concerned: the inputs of the graph and the batch
  dimension that \<open>ov::set_batch\<close> fixes.
\<close>

record Model =
  model_inputs :: "Output list"
  batch :: nat

text \<open>
  Modelled from the spec: \<open>ov::set_batch\<close> is a call into the inference runtime, whose
  code is not part of the repository; the specification says that it forces the batch
  dimension of the model to the given value.
\<close>

definition set_batch :: "Model \<Rightarrow> nat \<Rightarrow> Model" where
  "set_batch model n = model\<lparr>batch := n\<rparr>"

text \<open>\<open>ov::AnyMap\<close>, the compilation options, passed on unread.\<close>

type_synonym AnyMap = "(string \<times> string) list"

text \<open>
  \<open>ov::Core\<close>: the one member used is \<open>read_model\<close>, which fails when the file cannot
  be read.
\<close>

record Core =
  read_model :: "string \<Rightarrow> error + Model"

record ModelConfig =
  compilationConfig :: AnyMap

text \<open>
  The members of \<open>ModelBase\<close> that the file uses.  The adapter is a shared pointer
  (\<open>None\<close> when null) to an adapter object of type \<open>'a\<close>.  The record is extensible: the
  members of a task-specific subclass live in its extension.
\<close>

record 'a ModelBase =
  inferenceAdapter :: "'a option"
  modelFile :: string
  config :: ModelConfig
  inputsLayouts :: LayoutMap

text \<open>
  \<open>ResultBase\<close> and \<open>InferenceResult\<close> (models/results.h).  The fields that
  \<open>ResultBase\<close> itself declares are one value of type \<open>'b\<close>; a derived result type adds
  its own fields as the extension of the record, as \<open>InferenceResult\<close> does.
\<close>

record 'b ResultBase =
  baseFields :: 'b

record ('b, 'd, 't) InferenceResult = "'b ResultBase" +
  internalModelData :: 'd
  outputsData :: "(string \<times> 't) list"

text \<open>
  What the functions of the file do to the outside, in order: the lines they write to
  \<open>slog\<close> and the calls they make to the runtime, to the adapter and to the virtual
  member functions of the subclass.
\<close>

datatype level = Info | Warn

datatype ('i, 't, 'b, 'd) event =
    Slog level string
  | ReadModel string
  | LogBasicModelInfo Model
  | PrepareInputsOutputs Model
  | SetBatch Model nat
  | LoadModel Model string AnyMap
  | Preprocess 'i
  | AdapterInfer "(string \<times> 't) list"
  | Postprocess "('b, 'd, 't) InferenceResult"

record ('m, 'e) world =
  this :: 'm
  trace :: "'e list"

text \<open>
  Everything the file calls and does not define.  The pure virtual member functions
  \<open>prepareInputsOutputs\<close>, \<open>preprocess\<close> and \<open>postprocess\<close> are implemented by the
  subclass: they may throw and may assign to the members of the object, so they map the
  object to an outcome and the object after the call.  \<open>preprocess\<close> fills the tensors it
  is given by reference and returns the internal model data; \<open>postprocess\<close> receives the
  inference result by reference and returns a pointer to a result object (\<open>None\<close> when
  null).  \<open>loadModel\<close> and \<open>adapter_infer\<close> are the two member functions of the
  \<open>InferenceAdapter\<close> interface, acting on the adapter object.  \<open>getLayoutFromShape\<close>
  (utils/common.hpp) is the shape heuristic.  The remaining fields are the default
  constructors the file calls.
\<close>

record ('a, 'z, 'i, 't, 'd, 'b, 'r) Deps =
  prepareInputsOutputs ::
    "Model \<Rightarrow> ('a, 'z) ModelBase_scheme \<Rightarrow> (error + Model) \<times> ('a, 'z) ModelBase_scheme"
  preprocess ::
    "'i \<Rightarrow> (string \<times> 't) list \<Rightarrow> ('a, 'z) ModelBase_scheme
      \<Rightarrow> (error + 'd \<times> (string \<times> 't) list) \<times> ('a, 'z) ModelBase_scheme"
  postprocess ::
    "('b, 'd, 't) InferenceResult \<Rightarrow> ('a, 'z) ModelBase_scheme
      \<Rightarrow> (error + ('b, 'r) ResultBase_scheme option \<times> ('b, 'd, 't) InferenceResult)
          \<times> ('a, 'z) ModelBase_scheme"
  loadModel :: "Model \<Rightarrow> Core \<Rightarrow> string \<Rightarrow> AnyMap \<Rightarrow> 'a \<Rightarrow> (error + unit) \<times> 'a"
  adapter_infer :: "(string \<times> 't) list \<Rightarrow> 'a \<Rightarrow> (error + (string \<times> 't) list) \<times> 'a"
  getLayoutFromShape :: "Shape \<Rightarrow> Layout"
  new_OpenVINOInferenceAdapter :: 'a
  new_Core :: Core
  new_InferenceResult :: "('b, 'd, 't) InferenceResult"

subsection \<open>getInputLayout\<close>

definition emit :: "'e \<Rightarrow> ('m, 'e) world \<Rightarrow> ('m, 'e) world" where
  "emit e w = w\<lparr>trace := trace w @ [e]\<rparr>"

definition auto_layout_message :: "Layout \<Rightarrow> string \<Rightarrow> string" where
  "auto_layout_message l name =
     ''Automatically detected layout '' @ [CHR 0x27] @ l @ [CHR 0x27] @ '' for input ''
       @ [CHR 0x27] @ name @ [CHR 0x27] @ '' will be used.''"

definition getInputLayout ::
  "('a, 'z, 'i, 't, 'd, 'b, 'r) Deps \<Rightarrow> Output
    \<Rightarrow> (('a, 'z) ModelBase_scheme, ('i, 't, 'b, 'd) event) world
    \<Rightarrow> (error + Layout) \<times> (('a, 'z) ModelBase_scheme, ('i, 't, 'b, 'd) event) world" where
  "getInputLayout deps input w =
     (let inputShape = get_shape input;
          layout = get_layout input
      in if layout = [] then
           if inputsLayouts (this w) = [] then
             let layout = getLayoutFromShape deps inputShape
             in (Inr layout,
                 emit (Slog Warn (auto_layout_message layout (get_any_name input))) w)
           else if length (inputsLayouts (this w)) = 1 then
             (Inr (snd (hd (inputsLayouts (this w)))), w)
           else
             let (layout, m) = subscript (inputsLayouts (this w)) (get_any_name input)
             in (Inr layout, w\<lparr>this := (this w)\<lparr>inputsLayouts := m\<rparr>\<rparr>)
         else (Inr layout, w))"

subsection \<open>prepareModel and load\<close>

definition prepareModel ::
  "('a, 'z, 'i, 't, 'd, 'b, 'r) Deps \<Rightarrow> Core
    \<Rightarrow> (('a, 'z) ModelBase_scheme, ('i, 't, 'b, 'd) event) world
    \<Rightarrow> (error + unit) \<times> (('a, 'z) ModelBase_scheme, ('i, 't, 'b, 'd) event) world" where
  "prepareModel deps core w =
     (let w1 = emit (Slog Info (''Reading model '' @ modelFile (this w))) w;
          w2 = emit (ReadModel (modelFile (this w1))) w1
      in (case read_model core (modelFile (this w1)) of
            Inl e \<Rightarrow> (Inl e, w2)
          | Inr model \<Rightarrow>
             (let w3 = emit (LogBasicModelInfo model) w2;
                  w4 = emit (PrepareInputsOutputs model) w3
              in (case prepareInputsOutputs deps model (this w4) of
                    (Inl e, t) \<Rightarrow> (Inl e, w4\<lparr>this := t\<rparr>)
                  | (Inr model, t) \<Rightarrow>
                     (let w5 = emit (SetBatch model 1) (w4\<lparr>this := t\<rparr>);
                          model = set_batch model 1
                      in (case inferenceAdapter (this w5) of
                            None \<Rightarrow> (Inl NullPointerError, w5)
                          | Some a \<Rightarrow>
                             (let cfg = compilationConfig (config (this w5));
                                  w6 = emit (LoadModel model ''AUTO'' cfg) w5
                              in (case loadModel deps model core ''AUTO'' cfg a of
                                    (r, a') \<Rightarrow>
                                      (r, w6\<lparr>this :=
                                               (this w6)\<lparr>inferenceAdapter := Some a'\<rparr>\<rparr>)))))))))"

definition load ::
  "('a, 'z, 'i, 't, 'd, 'b, 'r) Deps \<Rightarrow> 'a option
    \<Rightarrow> (('a, 'z) ModelBase_scheme, ('i, 't, 'b, 'd) event) world
    \<Rightarrow> (error + unit) \<times> (('a, 'z) ModelBase_scheme, ('i, 't, 'b, 'd) event) world" where
  "load deps adapter w =
     (let w1 = (if adapter = None
                then w\<lparr>this := (this w)\<lparr>inferenceAdapter :=
                                          Some (new_OpenVINOInferenceAdapter deps)\<rparr>\<rparr>
                else w\<lparr>this := (this w)\<lparr>inferenceAdapter := adapter\<rparr>\<rparr>);
          core = new_Core deps
      in prepareModel deps core w1)"

subsection \<open>infer\<close>

definition infer ::
  "('a, 'z, 'i, 't, 'd, 'b, 'r) Deps \<Rightarrow> 'i
    \<Rightarrow> (('a, 'z) ModelBase_scheme, ('i, 't, 'b, 'd) event) world
    \<Rightarrow> (error + ('b, 'r) ResultBase_scheme)
        \<times> (('a, 'z) ModelBase_scheme, ('i, 't, 'b, 'd) event) world" where
  "infer deps inputData w =
     (let inputs = [];
          result = new_InferenceResult deps;
          w1 = emit (Preprocess inputData) w
      in (case preprocess deps inputData inputs (this w1) of
            (Inl e, t) \<Rightarrow> (Inl e, w1\<lparr>this := t\<rparr>)
          | (Inr (internalModelData', inputs), t) \<Rightarrow>
             (let w2 = w1\<lparr>this := t\<rparr>
              in (case inferenceAdapter (this w2) of
                    None \<Rightarrow> (Inl NullPointerError, w2)
                  | Some a \<Rightarrow>
                     (let w3 = emit (AdapterInfer inputs) w2
                      in (case adapter_infer deps inputs a of
                            (Inl e, a') \<Rightarrow>
                              (Inl e, w3\<lparr>this := (this w3)\<lparr>inferenceAdapter := Some a'\<rparr>\<rparr>)
                          | (Inr out, a') \<Rightarrow>
                             (let w4 = w3\<lparr>this := (this w3)\<lparr>inferenceAdapter := Some a'\<rparr>\<rparr>;
                                  result = result\<lparr>outputsData := out\<rparr>;
                                  result = result\<lparr>internalModelData := internalModelData'\<rparr>;
                                  w5 = emit (Postprocess result) w4
                              in (case postprocess deps result (this w5) of
                                    (Inl e, t) \<Rightarrow> (Inl e, w5\<lparr>this := t\<rparr>)
                                  | (Inr (retVal, result), t) \<Rightarrow>
                                     (case retVal of
                                        None \<Rightarrow> (Inl NullPointerError, w5\<lparr>this := t\<rparr>)
                                      | Some r \<Rightarrow>
                                          (Inr (r\<lparr>baseFields := baseFields result\<rparr>),
                                           w5\<lparr>this := t\<rparr>))))))))))"

subsection \<open>A concrete instance\<close>

text \<open>
  A small classification-like instance of the dependencies, used to run the definitions:
  the adapter object counts the executions it has done, preprocessing rejects empty input
  data, and the only readable model file is \<open>model.xml\<close>.
\<close>

definition demo_model :: Model where
  "demo_model =
     \<lparr>model_inputs = [\<lparr>get_shape = [8, 3, 224, 224], get_layout = [], get_any_name = ''data''\<rparr>],
      batch = 8\<rparr>"

definition demo_deps :: "(nat, unit, nat list, nat list, nat, int, string) Deps" where
  "demo_deps =
     \<lparr>prepareInputsOutputs = (\<lambda>model t. (Inr model, t)),
      preprocess = (\<lambda>x inputs t.
         if x = [] then (Inl PreprocessError, t)
         else (Inr (length x, (''data'', x) # inputs), t)),
      postprocess = (\<lambda>res t. (Inr (Some \<lparr>baseFields = 7, \<dots> = ''cat''\<rparr>, res), t)),
      loadModel = (\<lambda>model core device cfg a.
         if device = ''AUTO'' then (Inr (), a) else (Inl CompilationError, a)),
      adapter_infer = (\<lambda>inputs a. (Inr [(''prob'', concat (map snd inputs))], Suc a)),
      getLayoutFromShape = (\<lambda>s. if length s = 4 then ''NCHW'' else ''NC''),
      new_OpenVINOInferenceAdapter = 0,
      new_Core = \<lparr>read_model =
         (\<lambda>p. if p = ''model.xml'' then Inr demo_model else Inl ModelReadError)\<rparr>,
      new_InferenceResult = \<lparr>baseFields = - 1, internalModelData = 0, outputsData = []\<rparr>\<rparr>"

definition demo_world ::
  "nat option \<Rightarrow> string \<Rightarrow> LayoutMap \<Rightarrow> (nat ModelBase, (nat list, nat list, int, nat) event) world" where
  "demo_world adapter file layouts =
     \<lparr>this = \<lparr>inferenceAdapter = adapter, modelFile = file,
               config = \<lparr>compilationConfig = [(''PERFORMANCE_HINT'', ''LATENCY'')]\<rparr>,
               inputsLayouts = layouts\<rparr>,
      trace = []\<rparr>"

definition demo_input :: "string \<Rightarrow> Layout \<Rightarrow> Output" where
  "demo_input name l = \<lparr>get_shape = [1, 3, 224, 224], get_layout = l, get_any_name = name\<rparr>"

text \<open>The instance after a successful \<open>load\<close> with the default adapter.\<close>

definition demo_loaded :: "(nat ModelBase, (nat list, nat list, int, nat) event) world" where
  "demo_loaded = snd (load demo_deps None (demo_world None ''model.xml'' []))"

text \<open>
  The same instance with an adapter that records compilation: \<open>loadModel\<close> accepts
  only a model of batch 1 on the device \<open>AUTO\<close>, and resets the count of executions.
\<close>

definition compiling_deps :: "(nat, unit, nat list, nat list, nat, int, string) Deps" where
  "compiling_deps =
     demo_deps\<lparr>loadModel := (\<lambda>model core device cfg a.
        (if device = ''AUTO'' \<and> batch model = 1 then Inr () else Inl CompilationError, 0))\<rparr>"

subsection \<open>Reading the trace\<close>

text \<open>The events a call has added to the trace it started from.\<close>

definition new_events :: "('m, 'e) world \<Rightarrow> ('m, 'e) world \<Rightarrow> 'e list" where
  "new_events w w' = drop (length (trace w)) (trace w')"

fun is_warning :: "('i, 't, 'b, 'd) event \<Rightarrow> bool" where
  "is_warning (Slog Warn msg) = True"
| "is_warning e = False"

definition warnings :: "('i, 't, 'b, 'd) event list \<Rightarrow> nat" where
  "warnings es = length (filter is_warning es)"

fun is_adapter_infer :: "('i, 't, 'b, 'd) event \<Rightarrow> bool" where
  "is_adapter_infer (AdapterInfer inputs) = True"
| "is_adapter_infer e = False"

definition adapter_calls :: "('i, 't, 'b, 'd) event list \<Rightarrow> nat" where
  "adapter_calls es = length (filter is_adapter_infer es)"

text \<open>The function an event is a call of.\<close>

fun callee :: "('i, 't, 'b, 'd) event \<Rightarrow> string" where
  "callee (Slog l msg) = ''slog''"
| "callee (ReadModel f) = ''read_model''"
| "callee (LogBasicModelInfo m) = ''logBasicModelInfo''"
| "callee (PrepareInputsOutputs m) = ''prepareInputsOutputs''"
| "callee (SetBatch m n) = ''set_batch''"
| "callee (LoadModel m dev cfg) = ''loadModel''"
| "callee (Preprocess x) = ''preprocess''"
| "callee (AdapterInfer inputs) = ''infer''"
| "callee (Postprocess r) = ''postprocess''"

section \<open>Properties\<close>

subsection \<open>The layout map\<close>

lemma length_emplace: "length (emplace k v m) = Suc (length m)"
  by (induction k v m rule: emplace.induct) auto

lemma map_of_emplace:
  "map_of m k = None \<Longrightarrow> map_of (emplace k v m) = (map_of m)(k \<mapsto> v)"
  by (induction k v m rule: emplace.induct) (auto simp: fun_eq_iff split: if_splits)

lemma set_emplace: "set (emplace k v m) = insert (k, v) (set m)"
  by (induction k v m rule: emplace.induct) auto

lemma sorted_emplace: "sorted (map fst m) \<Longrightarrow> sorted (map fst (emplace k v m))"
  by (induction k v m rule: emplace.induct) (auto simp: set_emplace less_imp_le not_less)

lemma distinct_emplace:
  "distinct (map fst m) \<Longrightarrow> map_of m k = None \<Longrightarrow> distinct (map fst (emplace k v m))"
  by (induction k v m rule: emplace.induct)
     (auto simp: set_emplace map_of_eq_None_iff split: if_splits)

lemma map_inv_emplace: "map_inv m \<Longrightarrow> map_of m k = None \<Longrightarrow> map_inv (emplace k v m)"
  by (simp add: map_inv_def sorted_emplace distinct_emplace)

lemma emplace_neq: "emplace k v m \<noteq> m"
  using length_emplace [of k v m] by auto

lemma map_inv_subscript: "map_inv m \<Longrightarrow> map_inv (snd (subscript m k))"
  by (simp add: subscript_def map_inv_emplace split: option.splits)

subsection \<open>getInputLayout\<close>

lemma getInputLayout_unlisted:
  assumes "get_layout input = []" "2 \<le> length (inputsLayouts (this w))"
    "map_of (inputsLayouts (this w)) (get_any_name input) = None"
  shows "getInputLayout deps input w =
     (Inr [], w\<lparr>this := (this w)\<lparr>inputsLayouts :=
                   emplace (get_any_name input) [] (inputsLayouts (this w))\<rparr>\<rparr>)"
  using assms by (auto simp: getInputLayout_def subscript_def Let_def)

text \<open>
  Claim C1, as the code has it.  For an input without an annotated layout, when the
  configured map has two or more entries and none for the name of the input,
  \<open>getInputLayout\<close> does not fail with \<open>UndefinedLayoutError\<close>: the lookup is
  \<open>operator[]\<close>, which cannot throw, and the call returns the empty, default-constructed
  layout.
\<close>

theorem unlisted_input_returns_empty_layout:
  assumes "get_layout input = []" "2 \<le> length (inputsLayouts (this w))"
    "map_of (inputsLayouts (this w)) (get_any_name input) = None"
  shows "fst (getInputLayout deps input w) = Inr []"
  using assms by (simp add: getInputLayout_unlisted)

theorem unlisted_input_returns_empty_layout_witness:
  "get_layout (demo_input ''c'' []) = [] \<and>
   2 \<le> length (inputsLayouts (this (demo_world None ''model.xml''
                                      [(''a'', ''NCHW''), (''b'', ''NHWC'')]))) \<and>
   map_of (inputsLayouts (this (demo_world None ''model.xml''
                                  [(''a'', ''NCHW''), (''b'', ''NHWC'')])))
      (get_any_name (demo_input ''c'' [])) = None \<and>
   fst (getInputLayout demo_deps (demo_input ''c'' [])
          (demo_world None ''model.xml'' [(''a'', ''NCHW''), (''b'', ''NHWC'')])) = Inr []"
  using unlisted_input_returns_empty_layout
    [of "demo_input ''c'' []"
        "demo_world None ''model.xml'' [(''a'', ''NCHW''), (''b'', ''NHWC'')]" demo_deps]
  by (simp add: demo_input_def demo_world_def)

text \<open>
  Claim C1 as stated fails: with the entries \<open>a\<close> and \<open>b\<close> configured, resolving the
  unannotated input \<open>c\<close> is not an \<open>UndefinedLayoutError\<close>.
\<close>

theorem unlisted_input_counterexample:
  "get_layout (demo_input ''c'' []) = [] \<and>
   2 \<le> length (inputsLayouts (this (demo_world None ''model.xml''
                                      [(''a'', ''NCHW''), (''b'', ''NHWC'')]))) \<and>
   map_of (inputsLayouts (this (demo_world None ''model.xml''
                                  [(''a'', ''NCHW''), (''b'', ''NHWC'')])))
      (get_any_name (demo_input ''c'' [])) = None \<and>
   fst (getInputLayout demo_deps (demo_input ''c'' [])
          (demo_world None ''model.xml'' [(''a'', ''NCHW''), (''b'', ''NHWC'')]))
     \<noteq> Inl UndefinedLayoutError"
  by (simp add: getInputLayout_def subscript_def demo_input_def demo_world_def)

text \<open>
  Claim C3.  An input whose model graph carries a non-empty layout annotation gets exactly
  that layout.  The right-hand side mentions neither the configured map nor the shape
  heuristic, and the state, trace included, is the one the call started from.
\<close>

theorem annotated_layout_returned:
  "get_layout input \<noteq> [] \<Longrightarrow> getInputLayout deps input w = (Inr (get_layout input), w)"
  by (simp add: getInputLayout_def)

theorem annotated_layout_returned_witness:
  "get_layout (demo_input ''data'' ''NHWC'') \<noteq> [] \<and>
   getInputLayout demo_deps (demo_input ''data'' ''NHWC'')
       (demo_world None ''model.xml'' [(''data'', ''NCHW'')])
     = (Inr ''NHWC'', demo_world None ''model.xml'' [(''data'', ''NCHW'')])"
  using annotated_layout_returned
    [of "demo_input ''data'' ''NHWC''" demo_deps
        "demo_world None ''model.xml'' [(''data'', ''NCHW'')]"]
  by (simp add: demo_input_def)

text \<open>
  Claim C4.  For an input without an annotated layout, when the configured map is empty,
  \<open>getInputLayout\<close> returns what \<open>getLayoutFromShape\<close> gives for the shape of the
  input, and the call writes one line to the log, a warning: the trace grows by that line
  alone, and the object is unchanged.
\<close>

theorem auto_detected_layout:
  assumes "get_layout input = []" "inputsLayouts (this w) = []"
  shows "fst (getInputLayout deps input w) = Inr (getLayoutFromShape deps (get_shape input)) \<and>
         trace (snd (getInputLayout deps input w)) =
           trace w @ [Slog Warn (auto_layout_message (getLayoutFromShape deps (get_shape input))
                                   (get_any_name input))] \<and>
         warnings (new_events w (snd (getInputLayout deps input w))) = 1 \<and>
         this (snd (getInputLayout deps input w)) = this w"
  using assms by (simp add: getInputLayout_def Let_def emit_def new_events_def warnings_def)

theorem auto_detected_layout_witness:
  "get_layout (demo_input ''data'' []) = [] \<and>
   inputsLayouts (this (demo_world None ''model.xml'' [])) = [] \<and>
   fst (getInputLayout demo_deps (demo_input ''data'' []) (demo_world None ''model.xml'' []))
     = Inr ''NCHW'' \<and>
   warnings (new_events (demo_world None ''model.xml'' [])
      (snd (getInputLayout demo_deps (demo_input ''data'' []) (demo_world None ''model.xml'' []))))
     = 1"
  using auto_detected_layout
    [of "demo_input ''data'' []" "demo_world None ''model.xml'' []" demo_deps]
  by (simp add: demo_input_def demo_world_def demo_deps_def)

text \<open>
  Claim C5.  For an input without an annotated layout, when the configured map holds
  exactly one entry, \<open>getInputLayout\<close> returns the layout of that entry whatever the
  name of the input and whatever the key of the entry; nothing else changes.
\<close>

theorem single_configured_layout:
  assumes "get_layout input = []" "inputsLayouts (this w) = [(k, l)]"
  shows "getInputLayout deps input w = (Inr l, w)"
  using assms by (simp add: getInputLayout_def)

theorem single_configured_layout_witness:
  "get_layout (demo_input ''other'' []) = [] \<and>
   inputsLayouts (this (demo_world None ''model.xml'' [(''data'', ''NHWC'')])) = [(''data'', ''NHWC'')] \<and>
   getInputLayout demo_deps (demo_input ''other'' []) (demo_world None ''model.xml'' [(''data'', ''NHWC'')])
     = (Inr ''NHWC'', demo_world None ''model.xml'' [(''data'', ''NHWC'')])"
  using single_configured_layout
    [of "demo_input ''other'' []" "demo_world None ''model.xml'' [(''data'', ''NHWC'')]"
        "''data''" "''NHWC''" demo_deps]
  by (simp add: demo_input_def demo_world_def)

text \<open>The layout a call returns, as a function of what the call reads.\<close>

lemma fst_getInputLayout:
  "fst (getInputLayout deps input w) =
     Inr (if get_layout input \<noteq> [] then get_layout input
          else if inputsLayouts (this w) = [] then getLayoutFromShape deps (get_shape input)
          else if length (inputsLayouts (this w)) = 1 then snd (hd (inputsLayouts (this w)))
          else fst (subscript (inputsLayouts (this w)) (get_any_name input)))"
  by (simp add: getInputLayout_def Let_def split: prod.splits)

text \<open>
  Claim C9, as the code has it.  Two calls of \<open>getInputLayout\<close> on inputs with the same
  shape and the same annotation, with the same configured map, return the same layout
  provided that the inputs also have the same name whenever the name is read, that is when
  there is no annotation and the map has two or more entries.
\<close>

theorem layout_resolution_deterministic:
  assumes "get_shape i1 = get_shape i2" "get_layout i1 = get_layout i2"
    "inputsLayouts (this w1) = inputsLayouts (this w2)"
    "get_layout i1 = [] \<and> 2 \<le> length (inputsLayouts (this w1))
       \<longrightarrow> get_any_name i1 = get_any_name i2"
  shows "fst (getInputLayout deps i1 w1) = fst (getInputLayout deps i2 w2)"
proof (cases "get_layout i1 = [] \<and> 2 \<le> length (inputsLayouts (this w1))")
  case True
  with assms have "get_any_name i1 = get_any_name i2" by simp
  with assms show ?thesis by (simp add: fst_getInputLayout)
next
  case False
  then have "get_layout i1 \<noteq> [] \<or> inputsLayouts (this w1) = []
      \<or> length (inputsLayouts (this w1)) = 1"
    by (cases "inputsLayouts (this w1)") (auto simp: Suc_le_eq)
  with assms show ?thesis by (auto simp: fst_getInputLayout)
qed

theorem layout_resolution_deterministic_witness:
  "get_shape (demo_input ''a'' []) = get_shape (demo_input ''a'' []) \<and>
   get_layout (demo_input ''a'' []) = get_layout (demo_input ''a'' []) \<and>
   inputsLayouts (this (demo_world None ''model.xml'' [(''a'', ''NCHW''), (''b'', ''NHWC'')]))
     = inputsLayouts (this (demo_world (Some 1) ''other.xml''
                              [(''a'', ''NCHW''), (''b'', ''NHWC'')])) \<and>
   get_any_name (demo_input ''a'' []) = get_any_name (demo_input ''a'' []) \<and>
   fst (getInputLayout demo_deps (demo_input ''a'' [])
          (demo_world None ''model.xml'' [(''a'', ''NCHW''), (''b'', ''NHWC'')]))
   = fst (getInputLayout demo_deps (demo_input ''a'' [])
          (demo_world (Some 1) ''other.xml'' [(''a'', ''NCHW''), (''b'', ''NHWC'')]))"
  using layout_resolution_deterministic
    [of "demo_input ''a'' []" "demo_input ''a'' []"
        "demo_world None ''model.xml'' [(''a'', ''NCHW''), (''b'', ''NHWC'')]"
        "demo_world (Some 1) ''other.xml'' [(''a'', ''NCHW''), (''b'', ''NHWC'')]" demo_deps]
  by (simp add: demo_world_def)

text \<open>
  Claim C9 as stated fails: the same shape, the same (absent) annotation and the same
  configured map do not fix the result.  With the entries \<open>a\<close> and \<open>b\<close> configured, the
  inputs named \<open>a\<close> and \<open>b\<close> get different layouts.
\<close>

theorem layout_depends_on_name_counterexample:
  "get_shape (demo_input ''a'' []) = get_shape (demo_input ''b'' []) \<and>
   get_layout (demo_input ''a'' []) = get_layout (demo_input ''b'' []) \<and>
   fst (getInputLayout demo_deps (demo_input ''a'' [])
          (demo_world None ''model.xml'' [(''a'', ''NCHW''), (''b'', ''NHWC'')]))
   \<noteq> fst (getInputLayout demo_deps (demo_input ''b'' [])
          (demo_world None ''model.xml'' [(''a'', ''NCHW''), (''b'', ''NHWC'')]))"
  by (simp add: getInputLayout_def subscript_def demo_input_def demo_world_def)

text \<open>
  Claim C10.  \<open>getInputLayout\<close> changes \<open>inputsLayouts\<close> in one case: for an input
  without an annotated layout, when the map has two or more entries and none for the name
  of the input, the map after the call is the map before it with one entry more, the empty
  layout under that name; every other key keeps its value.
\<close>

theorem unlisted_input_grows_map:
  assumes "get_layout input = []" "2 \<le> length (inputsLayouts (this w))"
    "map_of (inputsLayouts (this w)) (get_any_name input) = None"
  shows "inputsLayouts (this (snd (getInputLayout deps input w)))
           = emplace (get_any_name input) [] (inputsLayouts (this w)) \<and>
         inputsLayouts (this (snd (getInputLayout deps input w))) \<noteq> inputsLayouts (this w) \<and>
         length (inputsLayouts (this (snd (getInputLayout deps input w))))
           = Suc (length (inputsLayouts (this w))) \<and>
         map_of (inputsLayouts (this (snd (getInputLayout deps input w))))
           = (map_of (inputsLayouts (this w)))(get_any_name input \<mapsto> [])"
  using assms
  by (simp add: getInputLayout_unlisted emplace_neq length_emplace map_of_emplace)

theorem unlisted_input_grows_map_witness:
  "get_layout (demo_input ''aa'' []) = [] \<and>
   2 \<le> length (inputsLayouts (this (demo_world None ''model.xml''
                                      [(''a'', ''NCHW''), (''b'', ''NHWC'')]))) \<and>
   map_of (inputsLayouts (this (demo_world None ''model.xml''
                                  [(''a'', ''NCHW''), (''b'', ''NHWC'')])))
      (get_any_name (demo_input ''aa'' [])) = None \<and>
   inputsLayouts (this (snd (getInputLayout demo_deps (demo_input ''aa'' [])
          (demo_world None ''model.xml'' [(''a'', ''NCHW''), (''b'', ''NHWC'')]))))
     = [(''a'', ''NCHW''), (''aa'', []), (''b'', ''NHWC'')]"
  using unlisted_input_grows_map
    [of "demo_input ''aa'' []"
        "demo_world None ''model.xml'' [(''a'', ''NCHW''), (''b'', ''NHWC'')]" demo_deps]
  by (simp add: demo_input_def demo_world_def)

subsection \<open>load and prepareModel\<close>

lemma this_emit [simp]: "this (emit e w) = this w"
  by (simp add: emit_def)

lemma trace_emit [simp]: "trace (emit e w) = trace w @ [e]"
  by (simp add: emit_def)

lemma prepareModel_read_failure:
  assumes "read_model core (modelFile (this w)) = Inl e"
  shows "prepareModel deps core w =
     (Inl e, w\<lparr>trace := trace w @ [Slog Info (''Reading model '' @ modelFile (this w)),
                                     ReadModel (modelFile (this w))]\<rparr>)"
  using assms by (simp add: prepareModel_def Let_def emit_def)

text \<open>
  Claim C2, as the code has it.  When reading the model file fails, \<open>load\<close> fails with
  the error of the read (\<open>ModelReadError\<close> for a missing file), after writing the log
  line and calling \<open>read_model\<close>, and nothing is handed to the adapter.  The object is
  not as before: \<open>inferenceAdapter\<close> has already been replaced by the adapter passed in,
  or by a new default adapter when none was passed.  Every other member is unchanged.
\<close>

theorem load_read_failure:
  assumes "read_model (new_Core deps) (modelFile (this w)) = Inl e"
  shows "load deps adapter w =
     (Inl e,
      w\<lparr>this := (this w)\<lparr>inferenceAdapter :=
                   Some (case adapter of None \<Rightarrow> new_OpenVINOInferenceAdapter deps
                         | Some a \<Rightarrow> a)\<rparr>,
        trace := trace w @ [Slog Info (''Reading model '' @ modelFile (this w)),
                            ReadModel (modelFile (this w))]\<rparr>)"
  using assms by (cases adapter) (simp_all add: load_def Let_def prepareModel_read_failure)

theorem load_read_failure_witness:
  "read_model (new_Core demo_deps) (modelFile (this (demo_world None ''nofile.xml'' [])))
     = Inl ModelReadError \<and>
   load demo_deps (Some 5) (demo_world None ''nofile.xml'' []) =
     (Inl ModelReadError,
      \<lparr>this = \<lparr>inferenceAdapter = Some 5, modelFile = ''nofile.xml'',
               config = \<lparr>compilationConfig = [(''PERFORMANCE_HINT'', ''LATENCY'')]\<rparr>,
               inputsLayouts = []\<rparr>,
       trace = [Slog Info ''Reading model nofile.xml'', ReadModel ''nofile.xml'']\<rparr>)"
  using load_read_failure
    [of demo_deps "demo_world None ''nofile.xml'' []" ModelReadError "Some 5"]
  by (simp add: demo_deps_def demo_world_def)

text \<open>
  Claim C2 as stated fails: loading the missing file \<open>nofile.xml\<close> with an adapter
  fails with \<open>ModelReadError\<close> and leaves an object that differs from the one before the
  call.
\<close>

theorem load_missing_file_counterexample:
  "read_model (new_Core demo_deps) (modelFile (this (demo_world None ''nofile.xml'' [])))
     = Inl ModelReadError \<and>
   fst (load demo_deps (Some 5) (demo_world None ''nofile.xml'' [])) = Inl ModelReadError \<and>
   this (snd (load demo_deps (Some 5) (demo_world None ''nofile.xml'' [])))
     \<noteq> this (demo_world None ''nofile.xml'' [])"
  by (simp add: load_def prepareModel_def Let_def emit_def demo_deps_def demo_world_def)

lemma prepareModel_steps:
  assumes "read_model core (modelFile (this w)) = Inr m"
    "prepareInputsOutputs deps m (this w) = (Inr m', t)"
    "inferenceAdapter t = Some a"
  shows "prepareModel deps core w =
     (fst (loadModel deps (set_batch m' 1) core ''AUTO'' (compilationConfig (config t)) a),
      w\<lparr>this := t\<lparr>inferenceAdapter :=
             Some (snd (loadModel deps (set_batch m' 1) core ''AUTO''
                          (compilationConfig (config t)) a))\<rparr>,
        trace := trace w @
          [Slog Info (''Reading model '' @ modelFile (this w)),
           ReadModel (modelFile (this w)),
           LogBasicModelInfo m,
           PrepareInputsOutputs m,
           SetBatch m' 1,
           LoadModel (set_batch m' 1) ''AUTO'' (compilationConfig (config t))]\<rparr>)"
  using assms by (simp add: prepareModel_def Let_def emit_def split: prod.splits)

lemma prepareModel_trace_extends:
  "\<exists>es. trace (snd (prepareModel deps core w)) = trace w @ es"
  by (simp add: prepareModel_def Let_def emit_def split: sum.splits prod.splits option.splits)

lemma prepareModel_handed_model:
  "LoadModel model dev cfg \<in> set (new_events w (snd (prepareModel deps core w)))
     \<Longrightarrow> batch model = 1 \<and> dev = ''AUTO''"
  by (auto simp: prepareModel_def Let_def emit_def new_events_def set_batch_def
           split: sum.splits prod.splits option.splits)

lemma prepareModel_callees:
  "prefix (map callee (new_events w (snd (prepareModel deps core w))))
     [''slog'', ''read_model'', ''logBasicModelInfo'', ''prepareInputsOutputs'',
      ''set_batch'', ''loadModel'']"
  by (simp add: prepareModel_def Let_def emit_def new_events_def
           split: sum.splits prod.splits option.splits)

lemma prepareModel_hook_failure:
  assumes "read_model core (modelFile (this w)) = Inr m"
    "prepareInputsOutputs deps m (this w) = (Inl e, t)"
  shows "prepareModel deps core w =
     (Inl e,
      w\<lparr>this := t,
        trace := trace w @
          [Slog Info (''Reading model '' @ modelFile (this w)),
           ReadModel (modelFile (this w)),
           LogBasicModelInfo m,
           PrepareInputsOutputs m]\<rparr>)"
  using assms by (simp add: prepareModel_def Let_def emit_def)

text \<open>
  Claim C6.  When the model is read, the hook returns and an adapter is set,
  \<open>prepareModel\<close> does exactly this, in this order: it logs the file name, reads the
  model, logs its basic information, calls \<open>prepareInputsOutputs\<close> on the model read,
  sets the batch of the model the hook left to 1, and applies \<open>loadModel\<close> of the
  adapter to that model, with batch 1, the device \<open>AUTO\<close> and the compilation
  configuration.  The outcome of \<open>prepareModel\<close> is the outcome of that \<open>loadModel\<close>,
  and the adapter of the object afterwards is the adapter as \<open>loadModel\<close> left it.
  When reading fails, or the hook throws, \<open>prepareModel\<close> fails with that error after
  the calls made so far, and nothing is handed to the adapter.  In every run a model handed
  to the adapter has batch 1 and device \<open>AUTO\<close>, and the calls made are an initial part
  of the sequence.
\<close>

theorem prepareModel_order:
  "(read_model core (modelFile (this w)) = Inr m \<and>
    prepareInputsOutputs deps m (this w) = (Inr m', t) \<and>
    inferenceAdapter t = Some a \<longrightarrow>
      prepareModel deps core w =
        (fst (loadModel deps (set_batch m' 1) core ''AUTO'' (compilationConfig (config t)) a),
         w\<lparr>this := t\<lparr>inferenceAdapter :=
                Some (snd (loadModel deps (set_batch m' 1) core ''AUTO''
                             (compilationConfig (config t)) a))\<rparr>,
           trace := trace w @
             [Slog Info (''Reading model '' @ modelFile (this w)),
              ReadModel (modelFile (this w)),
              LogBasicModelInfo m,
              PrepareInputsOutputs m,
              SetBatch m' 1,
              LoadModel (set_batch m' 1) ''AUTO'' (compilationConfig (config t))]\<rparr>) \<and>
      batch (set_batch m' 1) = 1) \<and>
   (read_model core (modelFile (this w)) = Inl err \<longrightarrow>
      prepareModel deps core w =
        (Inl err,
         w\<lparr>trace := trace w @ [Slog Info (''Reading model '' @ modelFile (this w)),
                                 ReadModel (modelFile (this w))]\<rparr>)) \<and>
   (read_model core (modelFile (this w)) = Inr m \<and>
    prepareInputsOutputs deps m (this w) = (Inl err, t) \<longrightarrow>
      prepareModel deps core w =
        (Inl err,
         w\<lparr>this := t,
           trace := trace w @
             [Slog Info (''Reading model '' @ modelFile (this w)),
              ReadModel (modelFile (this w)),
              LogBasicModelInfo m,
              PrepareInputsOutputs m]\<rparr>)) \<and>
   (LoadModel model dev cfg \<in> set (new_events w (snd (prepareModel deps core w))) \<longrightarrow>
      batch model = 1 \<and> dev = ''AUTO'') \<and>
   prefix (map callee (new_events w (snd (prepareModel deps core w))))
     [''slog'', ''read_model'', ''logBasicModelInfo'', ''prepareInputsOutputs'',
      ''set_batch'', ''loadModel'']"
proof (intro conjI impI)
  assume "read_model core (modelFile (this w)) = Inr m \<and>
    prepareInputsOutputs deps m (this w) = (Inr m', t) \<and> inferenceAdapter t = Some a"
  then show "prepareModel deps core w =
        (fst (loadModel deps (set_batch m' 1) core ''AUTO'' (compilationConfig (config t)) a),
         w\<lparr>this := t\<lparr>inferenceAdapter :=
                Some (snd (loadModel deps (set_batch m' 1) core ''AUTO''
                             (compilationConfig (config t)) a))\<rparr>,
           trace := trace w @
             [Slog Info (''Reading model '' @ modelFile (this w)),
              ReadModel (modelFile (this w)),
              LogBasicModelInfo m,
              PrepareInputsOutputs m,
              SetBatch m' 1,
              LoadModel (set_batch m' 1) ''AUTO'' (compilationConfig (config t))]\<rparr>)"
    by (simp add: prepareModel_steps)
  show "batch (set_batch m' 1) = 1"
    by (simp add: set_batch_def)
next
  assume "read_model core (modelFile (this w)) = Inl err"
  then show "prepareModel deps core w =
        (Inl err,
         w\<lparr>trace := trace w @ [Slog Info (''Reading model '' @ modelFile (this w)),
                                 ReadModel (modelFile (this w))]\<rparr>)"
    by (rule prepareModel_read_failure)
next
  assume "read_model core (modelFile (this w)) = Inr m \<and>
    prepareInputsOutputs deps m (this w) = (Inl err, t)"
  then show "prepareModel deps core w =
        (Inl err,
         w\<lparr>this := t,
           trace := trace w @
             [Slog Info (''Reading model '' @ modelFile (this w)),
              ReadModel (modelFile (this w)),
              LogBasicModelInfo m,
              PrepareInputsOutputs m]\<rparr>)"
    by (simp add: prepareModel_hook_failure)
next
  assume x: "LoadModel model dev cfg \<in> set (new_events w (snd (prepareModel deps core w)))"
  from prepareModel_handed_model [OF x] show "batch model = 1" and "dev = ''AUTO''"
    by simp_all
next
  show "prefix (map callee (new_events w (snd (prepareModel deps core w))))
     [''slog'', ''read_model'', ''logBasicModelInfo'', ''prepareInputsOutputs'',
      ''set_batch'', ''loadModel'']"
    by (rule prepareModel_callees)
qed

theorem prepareModel_order_witness:
  "read_model (new_Core compiling_deps)
      (modelFile (this (demo_world (Some 3) ''model.xml'' []))) = Inr demo_model \<and>
   prepareInputsOutputs compiling_deps demo_model (this (demo_world (Some 3) ''model.xml'' []))
     = (Inr demo_model, this (demo_world (Some 3) ''model.xml'' [])) \<and>
   inferenceAdapter (this (demo_world (Some 3) ''model.xml'' [])) = Some 3 \<and>
   prepareModel compiling_deps (new_Core compiling_deps) (demo_world (Some 3) ''model.xml'' [])
     = (Inr (),
        \<lparr>this = \<lparr>inferenceAdapter = Some 0, modelFile = ''model.xml'',
                 config = \<lparr>compilationConfig = [(''PERFORMANCE_HINT'', ''LATENCY'')]\<rparr>,
                 inputsLayouts = []\<rparr>,
         trace =
           [Slog Info ''Reading model model.xml'',
            ReadModel ''model.xml'',
            LogBasicModelInfo demo_model,
            PrepareInputsOutputs demo_model,
            SetBatch demo_model 1,
            LoadModel (demo_model\<lparr>batch := 1\<rparr>) ''AUTO''
              [(''PERFORMANCE_HINT'', ''LATENCY'')]]\<rparr>)"
proof -
  have r: "read_model (new_Core compiling_deps)
      (modelFile (this (demo_world (Some 3) ''model.xml'' []))) = Inr demo_model"
    by (simp add: compiling_deps_def demo_deps_def demo_world_def)
  have h: "prepareInputsOutputs compiling_deps demo_model
      (this (demo_world (Some 3) ''model.xml'' []))
     = (Inr demo_model, this (demo_world (Some 3) ''model.xml'' []))"
    by (simp add: compiling_deps_def demo_deps_def)
  have a: "inferenceAdapter (this (demo_world (Some 3) ''model.xml'' [])) = Some 3"
    by (simp add: demo_world_def)
  note c = prepareModel_order
    [where core = "new_Core compiling_deps" and w = "demo_world (Some 3) ''model.xml'' []"
       and m = demo_model and deps = compiling_deps and m' = demo_model
       and t = "this (demo_world (Some 3) ''model.xml'' [])" and a = 3
       and model = demo_model and dev = "''AUTO''" and cfg = "[]" and err = ModelReadError,
     THEN conjunct1, THEN mp, OF conjI [OF r conjI [OF h a]], THEN conjunct1]
  have l: "loadModel compiling_deps (set_batch demo_model 1) (new_Core compiling_deps) ''AUTO''
      (compilationConfig (config (this (demo_world (Some 3) ''model.xml'' [])))) 3 = (Inr (), 0)"
    by (simp add: compiling_deps_def set_batch_def)
  have e: "prepareModel compiling_deps (new_Core compiling_deps)
      (demo_world (Some 3) ''model.xml'' [])
     = (Inr (),
        \<lparr>this = \<lparr>inferenceAdapter = Some 0, modelFile = ''model.xml'',
                 config = \<lparr>compilationConfig = [(''PERFORMANCE_HINT'', ''LATENCY'')]\<rparr>,
                 inputsLayouts = []\<rparr>,
         trace =
           [Slog Info ''Reading model model.xml'',
            ReadModel ''model.xml'',
            LogBasicModelInfo demo_model,
            PrepareInputsOutputs demo_model,
            SetBatch demo_model 1,
            LoadModel (demo_model\<lparr>batch := 1\<rparr>) ''AUTO''
              [(''PERFORMANCE_HINT'', ''LATENCY'')]]\<rparr>)"
    unfolding c l by (simp add: demo_world_def set_batch_def)
  show ?thesis
    by (intro conjI) (rule r, rule h, rule a, rule e)
qed

subsection \<open>infer\<close>

lemma infer_preprocess_failure:
  assumes "preprocess deps x [] (this w) = (Inl e, t)"
  shows "infer deps x w = (Inl e, w\<lparr>this := t, trace := trace w @ [Preprocess x]\<rparr>)"
  using assms by (simp add: infer_def Let_def emit_def)

lemma infer_steps:
  assumes "preprocess deps x [] (this w) = (Inr (d, inputs), t)"
    "inferenceAdapter t = Some a"
  shows "new_events w (snd (infer deps x w)) =
     Preprocess x # AdapterInfer inputs #
       (case fst (adapter_infer deps inputs a) of
          Inl e \<Rightarrow> []
        | Inr out \<Rightarrow>
            [Postprocess ((new_InferenceResult deps)\<lparr>outputsData := out,
                                                     internalModelData := d\<rparr>)])"
  using assms
  by (simp add: infer_def Let_def emit_def new_events_def
           split: sum.splits prod.splits option.splits)

lemma infer_adapter_calls_le:
  "adapter_calls (new_events w (snd (infer deps x w))) \<le> 1"
  by (simp add: infer_def Let_def emit_def new_events_def adapter_calls_def
           split: sum.splits prod.splits option.splits)

lemma infer_callees:
  "prefix (map callee (new_events w (snd (infer deps x w))))
     [''preprocess'', ''infer'', ''postprocess'']"
  by (simp add: infer_def Let_def emit_def new_events_def
           split: sum.splits prod.splits option.splits)

lemma infer_adapter_failure:
  assumes "preprocess deps x [] (this w) = (Inr (d, inputs), t)"
    "inferenceAdapter t = Some a"
    "adapter_infer deps inputs a = (Inl e, a')"
  shows "infer deps x w =
     (Inl e,
      w\<lparr>this := t\<lparr>inferenceAdapter := Some a'\<rparr>,
        trace := trace w @ [Preprocess x, AdapterInfer inputs]\<rparr>)"
  using assms by (simp add: infer_def Let_def emit_def)

lemma infer_postprocess_failure:
  assumes "preprocess deps x [] (this w) = (Inr (d, inputs), t)"
    "inferenceAdapter t = Some a"
    "adapter_infer deps inputs a = (Inr out, a')"
    "postprocess deps ((new_InferenceResult deps)\<lparr>outputsData := out, internalModelData := d\<rparr>)
        (t\<lparr>inferenceAdapter := Some a'\<rparr>) = (Inl e, u)"
  shows "infer deps x w =
     (Inl e,
      w\<lparr>this := u,
        trace := trace w @
          [Preprocess x, AdapterInfer inputs,
           Postprocess ((new_InferenceResult deps)\<lparr>outputsData := out,
                                                    internalModelData := d\<rparr>)]\<rparr>)"
  using assms by (simp add: infer_def Let_def emit_def)

lemma infer_result:
  assumes "preprocess deps x [] (this w) = (Inr (d, inputs), t1)"
    "inferenceAdapter t1 = Some a"
    "adapter_infer deps inputs a = (Inr out, a')"
    "postprocess deps ((new_InferenceResult deps)\<lparr>outputsData := out, internalModelData := d\<rparr>)
        (t1\<lparr>inferenceAdapter := Some a'\<rparr>) = (Inr (Some pr, res), t3)"
  shows "infer deps x w =
     (Inr (pr\<lparr>baseFields := baseFields res\<rparr>),
      w\<lparr>this := t3,
        trace := trace w @
          [Preprocess x, AdapterInfer inputs,
           Postprocess ((new_InferenceResult deps)\<lparr>outputsData := out,
                                                    internalModelData := d\<rparr>)]\<rparr>)"
  using assms by (simp add: infer_def Let_def emit_def)

text \<open>
  Claim C7, as the code has it.  An invocation of \<open>infer\<close> whose preprocessing returns,
  on an object with an adapter, applies the execution of the adapter exactly once, to the
  tensors preprocessing produced, after \<open>preprocess\<close> and before \<open>postprocess\<close>, and
  keeps the adapter as the execution left it.  When the execution throws, \<open>infer\<close> fails
  with that error.  When it returns, \<open>postprocess\<close> is applied to the inference result
  holding the outputs and the internal model data of preprocessing: \<open>infer\<close> fails with
  the error of \<open>postprocess\<close>, or returns the object \<open>postprocess\<close> returned with the
  \<open>ResultBase\<close> fields of the inference result.  An invocation whose preprocessing throws
  fails with that error and calls the adapter not at all.  No invocation calls it more than
  once, and the calls of every invocation are an initial part of preprocess, infer,
  postprocess.
\<close>

theorem infer_one_adapter_call:
  "(preprocess deps x [] (this w) = (Inr (d, inputs), t) \<and> inferenceAdapter t = Some a \<longrightarrow>
      adapter_calls (new_events w (snd (infer deps x w))) = 1 \<and>
      new_events w (snd (infer deps x w)) =
        Preprocess x # AdapterInfer inputs #
          (case fst (adapter_infer deps inputs a) of
             Inl e \<Rightarrow> []
           | Inr out \<Rightarrow>
               [Postprocess ((new_InferenceResult deps)\<lparr>outputsData := out,
                                                        internalModelData := d\<rparr>)]) \<and>
      (adapter_infer deps inputs a = (Inl err, a') \<longrightarrow>
         infer deps x w =
           (Inl err,
            w\<lparr>this := t\<lparr>inferenceAdapter := Some a'\<rparr>,
              trace := trace w @ [Preprocess x, AdapterInfer inputs]\<rparr>)) \<and>
      (adapter_infer deps inputs a = (Inr outs, a') \<and>
       postprocess deps
          ((new_InferenceResult deps)\<lparr>outputsData := outs, internalModelData := d\<rparr>)
          (t\<lparr>inferenceAdapter := Some a'\<rparr>) = (Inl err, u) \<longrightarrow>
         infer deps x w =
           (Inl err,
            w\<lparr>this := u,
              trace := trace w @
                [Preprocess x, AdapterInfer inputs,
                 Postprocess ((new_InferenceResult deps)\<lparr>outputsData := outs,
                                                          internalModelData := d\<rparr>)]\<rparr>)) \<and>
      (adapter_infer deps inputs a = (Inr outs, a') \<and>
       postprocess deps
          ((new_InferenceResult deps)\<lparr>outputsData := outs, internalModelData := d\<rparr>)
          (t\<lparr>inferenceAdapter := Some a'\<rparr>) = (Inr (Some pr, res), u) \<longrightarrow>
         infer deps x w =
           (Inr (pr\<lparr>baseFields := baseFields res\<rparr>),
            w\<lparr>this := u,
              trace := trace w @
                [Preprocess x, AdapterInfer inputs,
                 Postprocess ((new_InferenceResult deps)\<lparr>outputsData := outs,
                                                          internalModelData := d\<rparr>)]\<rparr>))) \<and>
   (preprocess deps x [] (this w) = (Inl err', t') \<longrightarrow>
      infer deps x w = (Inl err', w\<lparr>this := t', trace := trace w @ [Preprocess x]\<rparr>) \<and>
      adapter_calls (new_events w (snd (infer deps x w))) = 0) \<and>
   adapter_calls (new_events w (snd (infer deps x w))) \<le> 1 \<and>
   prefix (map callee (new_events w (snd (infer deps x w))))
     [''preprocess'', ''infer'', ''postprocess'']"
proof (intro conjI impI)
  assume h: "preprocess deps x [] (this w) = (Inr (d, inputs), t) \<and> inferenceAdapter t = Some a"
  then have p: "preprocess deps x [] (this w) = (Inr (d, inputs), t)"
    and a: "inferenceAdapter t = Some a"
    by simp_all
  show ev: "new_events w (snd (infer deps x w)) =
        Preprocess x # AdapterInfer inputs #
          (case fst (adapter_infer deps inputs a) of
             Inl e \<Rightarrow> []
           | Inr out \<Rightarrow>
               [Postprocess ((new_InferenceResult deps)\<lparr>outputsData := out,
                                                        internalModelData := d\<rparr>)])"
    by (rule infer_steps [OF p a])
  show "adapter_calls (new_events w (snd (infer deps x w))) = 1"
    unfolding ev by (simp add: adapter_calls_def split: sum.splits)
  {
    assume "adapter_infer deps inputs a = (Inl err, a')"
    then show "infer deps x w =
           (Inl err,
            w\<lparr>this := t\<lparr>inferenceAdapter := Some a'\<rparr>,
              trace := trace w @ [Preprocess x, AdapterInfer inputs]\<rparr>)"
      by (rule infer_adapter_failure [OF p a])
  }
  {
    assume "adapter_infer deps inputs a = (Inr outs, a') \<and>
       postprocess deps
          ((new_InferenceResult deps)\<lparr>outputsData := outs, internalModelData := d\<rparr>)
          (t\<lparr>inferenceAdapter := Some a'\<rparr>) = (Inl err, u)"
    then show "infer deps x w =
           (Inl err,
            w\<lparr>this := u,
              trace := trace w @
                [Preprocess x, AdapterInfer inputs,
                 Postprocess ((new_InferenceResult deps)\<lparr>outputsData := outs,
                                                          internalModelData := d\<rparr>)]\<rparr>)"
      using infer_postprocess_failure [OF p a] by blast
  }
  {
    assume "adapter_infer deps inputs a = (Inr outs, a') \<and>
       postprocess deps
          ((new_InferenceResult deps)\<lparr>outputsData := outs, internalModelData := d\<rparr>)
          (t\<lparr>inferenceAdapter := Some a'\<rparr>) = (Inr (Some pr, res), u)"
    then show "infer deps x w =
           (Inr (pr\<lparr>baseFields := baseFields res\<rparr>),
            w\<lparr>this := u,
              trace := trace w @
                [Preprocess x, AdapterInfer inputs,
                 Postprocess ((new_InferenceResult deps)\<lparr>outputsData := outs,
                                                          internalModelData := d\<rparr>)]\<rparr>)"
      using infer_result [OF p a] by blast
  }
next
  assume f: "preprocess deps x [] (this w) = (Inl err', t')"
  then show i: "infer deps x w = (Inl err', w\<lparr>this := t', trace := trace w @ [Preprocess x]\<rparr>)"
    by (rule infer_preprocess_failure)
  show "adapter_calls (new_events w (snd (infer deps x w))) = 0"
    unfolding i by (simp add: new_events_def adapter_calls_def)
next
  show "adapter_calls (new_events w (snd (infer deps x w))) \<le> 1"
    by (rule infer_adapter_calls_le)
  show "prefix (map callee (new_events w (snd (infer deps x w))))
     [''preprocess'', ''infer'', ''postprocess'']"
    by (rule infer_callees)
qed

theorem infer_one_adapter_call_witness:
  "preprocess demo_deps [4, 2] [] (this (demo_world (Some 3) ''model.xml'' []))
     = (Inr (2, [(''data'', [4, 2])]), this (demo_world (Some 3) ''model.xml'' [])) \<and>
   inferenceAdapter (this (demo_world (Some 3) ''model.xml'' [])) = Some 3 \<and>
   adapter_calls (new_events (demo_world (Some 3) ''model.xml'' [])
      (snd (infer demo_deps [4, 2] (demo_world (Some 3) ''model.xml'' [])))) = 1 \<and>
   infer demo_deps [4, 2] (demo_world (Some 3) ''model.xml'' [])
     = (Inr \<lparr>baseFields = - 1, \<dots> = ''cat''\<rparr>,
        \<lparr>this = \<lparr>inferenceAdapter = Some 4, modelFile = ''model.xml'',
                 config = \<lparr>compilationConfig = [(''PERFORMANCE_HINT'', ''LATENCY'')]\<rparr>,
                 inputsLayouts = []\<rparr>,
         trace =
           [Preprocess [4, 2], AdapterInfer [(''data'', [4, 2])],
            Postprocess \<lparr>baseFields = - 1, internalModelData = 2,
                         outputsData = [(''prob'', [4, 2])]\<rparr>]\<rparr>)"
proof -
  have p: "preprocess demo_deps [4, 2] [] (this (demo_world (Some 3) ''model.xml'' []))
     = (Inr (2, [(''data'', [4, 2])]), this (demo_world (Some 3) ''model.xml'' []))"
    by (simp add: demo_deps_def)
  have a: "inferenceAdapter (this (demo_world (Some 3) ''model.xml'' [])) = Some 3"
    by (simp add: demo_world_def)
  have r: "adapter_infer demo_deps [(''data'', [4, 2])] 3 = (Inr [(''prob'', [4, 2])], 4)"
    by (simp add: demo_deps_def)
  have q: "postprocess demo_deps
        ((new_InferenceResult demo_deps)\<lparr>outputsData := [(''prob'', [4, 2])],
                                           internalModelData := 2\<rparr>)
        ((this (demo_world (Some 3) ''model.xml'' []))\<lparr>inferenceAdapter := Some 4\<rparr>)
      = (Inr (Some \<lparr>baseFields = 7, \<dots> = ''cat''\<rparr>,
              (new_InferenceResult demo_deps)\<lparr>outputsData := [(''prob'', [4, 2])],
                                                internalModelData := 2\<rparr>),
         (this (demo_world (Some 3) ''model.xml'' []))\<lparr>inferenceAdapter := Some 4\<rparr>)"
    by (simp add: demo_deps_def)
  note c = infer_one_adapter_call
    [where deps = demo_deps and x = "[4, 2]" and w = "demo_world (Some 3) ''model.xml'' []"
       and d = 2 and inputs = "[(''data'', [4, 2])]"
       and t = "this (demo_world (Some 3) ''model.xml'' [])" and a = 3
       and a' = 4 and outs = "[(''prob'', [4, 2])]"
       and pr = "\<lparr>baseFields = 7, \<dots> = ''cat''\<rparr>"
       and res = "(new_InferenceResult demo_deps)\<lparr>outputsData := [(''prob'', [4, 2])],
                                                    internalModelData := 2\<rparr>"
       and u = "(this (demo_world (Some 3) ''model.xml'' []))\<lparr>inferenceAdapter := Some 4\<rparr>"
       and err = PreprocessError and err' = PreprocessError
       and t' = "this (demo_world (Some 3) ''model.xml'' [])",
     THEN conjunct1, THEN mp, OF conjI [OF p a]]
  note n = c [THEN conjunct1]
  note e = c [THEN conjunct2, THEN conjunct2, THEN conjunct2, THEN conjunct2, THEN mp,
              OF conjI [OF r q]]
  have i: "infer demo_deps [4, 2] (demo_world (Some 3) ''model.xml'' [])
     = (Inr \<lparr>baseFields = - 1, \<dots> = ''cat''\<rparr>,
        \<lparr>this = \<lparr>inferenceAdapter = Some 4, modelFile = ''model.xml'',
                 config = \<lparr>compilationConfig = [(''PERFORMANCE_HINT'', ''LATENCY'')]\<rparr>,
                 inputsLayouts = []\<rparr>,
         trace =
           [Preprocess [4, 2], AdapterInfer [(''data'', [4, 2])],
            Postprocess \<lparr>baseFields = - 1, internalModelData = 2,
                         outputsData = [(''prob'', [4, 2])]\<rparr>]\<rparr>)"
    unfolding e by (simp add: demo_deps_def demo_world_def)
  show ?thesis
    by (intro conjI) (rule p, rule a, rule n, rule i)
qed

text \<open>
  Claim C7 as stated fails for the invocations it calls "every": on empty input data
  preprocessing throws and the adapter is never called.
\<close>

theorem infer_no_adapter_call_counterexample:
  "fst (infer demo_deps [] (demo_world (Some 3) ''model.xml'' [])) = Inl PreprocessError \<and>
   adapter_calls (new_events (demo_world (Some 3) ''model.xml'' [])
      (snd (infer demo_deps [] (demo_world (Some 3) ''model.xml'' [])))) \<noteq> 1"
  by (simp add: infer_def Let_def emit_def new_events_def adapter_calls_def
        demo_deps_def demo_world_def)

lemma prepareModel_adapter_set:
  "fst (prepareModel deps core w) = Inr () \<Longrightarrow>
     inferenceAdapter (this (snd (prepareModel deps core w))) \<noteq> None"
  by (simp add: prepareModel_def Let_def split: sum.splits prod.splits option.splits)

lemma load_adapter_set:
  assumes "load deps adapter w0 = (Inr (), w)"
  shows "inferenceAdapter (this w) \<noteq> None"
proof -
  from assms obtain w1 where "prepareModel deps (new_Core deps) w1 = (Inr (), w)"
    by (simp add: load_def Let_def)
  then show ?thesis
    using prepareModel_adapter_set [of deps "new_Core deps" w1] by simp
qed

text \<open>
  Claim C8.  After a successful \<open>load\<close>, an \<open>infer\<close> whose preprocessing, execution
  and postprocessing all return gives the object that \<open>postprocess\<close> returned, with the
  fields declared by \<open>ResultBase\<close> overwritten by those of the inference result: the
  task-specific fields (the extension of the record) are those of the postprocessing output
  and of nothing else.
\<close>

theorem infer_result_from_postprocess:
  assumes "load deps adapter w0 = (Inr (), w)"
    "preprocess deps x [] (this w) = (Inr (d, inputs), t1)"
    "inferenceAdapter t1 = inferenceAdapter (this w)"
    "adapter_infer deps inputs (the (inferenceAdapter t1)) = (Inr out, a')"
    "postprocess deps ((new_InferenceResult deps)\<lparr>outputsData := out, internalModelData := d\<rparr>)
        (t1\<lparr>inferenceAdapter := Some a'\<rparr>) = (Inr (Some pr, res), t3)"
  shows "fst (infer deps x w) = Inr (pr\<lparr>baseFields := baseFields res\<rparr>) \<and>
         ResultBase.more (projr (fst (infer deps x w))) = ResultBase.more pr \<and>
         baseFields (projr (fst (infer deps x w))) = baseFields res"
proof -
  from assms(1) have "inferenceAdapter (this w) \<noteq> None"
    by (rule load_adapter_set)
  with assms(3) obtain a where a: "inferenceAdapter t1 = Some a"
    by auto
  with assms(4) have "adapter_infer deps inputs a = (Inr out, a')"
    by simp
  from infer_result [OF assms(2) a this assms(5)] show ?thesis
    by simp
qed

theorem infer_result_from_postprocess_witness:
  "load demo_deps None (demo_world None ''model.xml'' []) = (Inr (), demo_loaded) \<and>
   fst (infer demo_deps [4, 2] demo_loaded) = Inr \<lparr>baseFields = - 1, \<dots> = ''cat''\<rparr> \<and>
   ResultBase.more (projr (fst (infer demo_deps [4, 2] demo_loaded))) = ''cat''"
proof -
  have f: "fst (load demo_deps None (demo_world None ''model.xml'' [])) = Inr ()"
    by (simp add: load_def prepareModel_def Let_def emit_def demo_deps_def demo_world_def)
  then have l: "load demo_deps None (demo_world None ''model.xml'' []) = (Inr (), demo_loaded)"
    by (simp add: demo_loaded_def prod_eq_iff)
  have t: "inferenceAdapter (this demo_loaded) = Some 0"
    by (simp add: demo_loaded_def load_def prepareModel_def Let_def emit_def
          demo_deps_def demo_world_def)
  have p: "preprocess demo_deps [4, 2] [] (this demo_loaded)
      = (Inr (2, [(''data'', [4, 2])]), this demo_loaded)"
    by (simp add: demo_deps_def)
  have a: "adapter_infer demo_deps [(''data'', [4, 2])] (the (inferenceAdapter (this demo_loaded)))
      = (Inr [(''prob'', [4, 2])], 1)"
    by (simp add: t demo_deps_def)
  have q: "postprocess demo_deps
        ((new_InferenceResult demo_deps)\<lparr>outputsData := [(''prob'', [4, 2])],
                                           internalModelData := 2\<rparr>)
        ((this demo_loaded)\<lparr>inferenceAdapter := Some 1\<rparr>)
      = (Inr (Some \<lparr>baseFields = 7, \<dots> = ''cat''\<rparr>,
              (new_InferenceResult demo_deps)\<lparr>outputsData := [(''prob'', [4, 2])],
                                                internalModelData := 2\<rparr>),
         (this demo_loaded)\<lparr>inferenceAdapter := Some 1\<rparr>)"
    by (simp add: demo_deps_def)
  note c = infer_result_from_postprocess [OF l p refl a q]
  have b: "baseFields ((new_InferenceResult demo_deps)\<lparr>outputsData := [(''prob'', [4, 2])],
                                           internalModelData := 2\<rparr>) = - 1"
    by (simp add: demo_deps_def)
  from c have "fst (infer demo_deps [4, 2] demo_loaded) = Inr \<lparr>baseFields = - 1, \<dots> = ''cat''\<rparr>"
    and "ResultBase.more (projr (fst (infer demo_deps [4, 2] demo_loaded))) = ''cat''"
    by (simp_all add: b)
  with l show ?thesis
    by (intro conjI)
qed

end
